theory Spec2Isabelle
  imports Complex_Main
begin

section \<open>Numbers and vectors\<close>

text \<open>
  The components of \<^verbatim>\<open>Experience.tsx\<close> compute on JavaScript numbers. They are
  read here as real numbers: rounding, infinities and NaN are outside the model, and
  every statement below is about this real-number reading of the code.

  \<^verbatim>\<open>THREE.Vector3\<close> is a record of three numbers. Its fields are called
  \<open>vx\<close>, \<open>vy\<close>, \<open>vz\<close> (for \<^verbatim>\<open>x\<close>, \<^verbatim>\<open>y\<close>, \<^verbatim>\<open>z\<close>).
  The operations are the ones the source calls, with the bodies three.js gives them.
\<close>

record Vector3 =
  vx :: real
  vy :: real
  vz :: real

definition sub :: "Vector3 \<Rightarrow> Vector3 \<Rightarrow> Vector3" where
  \<comment> \<open>\<^verbatim>\<open>this.x -= v.x; this.y -= v.y; this.z -= v.z\<close>\<close>
  "sub a v = \<lparr>vx = vx a - vx v, vy = vy a - vy v, vz = vz a - vz v\<rparr>"

definition length_v :: "Vector3 \<Rightarrow> real" where
  \<comment> \<open>\<^verbatim>\<open>Math.sqrt(x * x + y * y + z * z)\<close>\<close>
  "length_v a = sqrt (vx a * vx a + vy a * vy a + vz a * vz a)"

definition multiplyScalar :: "Vector3 \<Rightarrow> real \<Rightarrow> Vector3" where
  "multiplyScalar a k = \<lparr>vx = vx a * k, vy = vy a * k, vz = vz a * k\<rparr>"

definition divideScalar :: "Vector3 \<Rightarrow> real \<Rightarrow> Vector3" where
  \<comment> \<open>\<^verbatim>\<open>return this.multiplyScalar(1 / scalar)\<close>\<close>
  "divideScalar a k = multiplyScalar a (1 / k)"

definition normalize :: "Vector3 \<Rightarrow> Vector3" where
  \<comment> \<open>\<^verbatim>\<open>return this.divideScalar(this.length() || 1)\<close>: a zero length is replaced by 1\<close>
  "normalize a = divideScalar a (if length_v a = 0 then 1 else length_v a)"

text \<open>
  The test of \<open>normalize\<close> is on the computed length. Over the reals the length is 0
  for the zero vector only, whereas the computed length of a tiny non-zero vector can
  round to 0. The two readings agree on the zero vector itself and on every vector that
  is not tiny; statements that depend on the test are made for the directions the
  application computes, which are of these two kinds.
\<close>

definition dot :: "Vector3 \<Rightarrow> Vector3 \<Rightarrow> real" where
  "dot a v = vx a * vx v + vy a * vy v + vz a * vz v"

definition lerp_v :: "Vector3 \<Rightarrow> Vector3 \<Rightarrow> real \<Rightarrow> Vector3" where
  \<comment> \<open>\<^verbatim>\<open>Vector3.lerp(v, alpha)\<close>: \<^verbatim>\<open>this.x += (v.x - this.x) * alpha\<close>, and so for y and z\<close>
  "lerp_v a v alpha =
     \<lparr>vx = vx a + (vx v - vx a) * alpha,
      vy = vy a + (vy v - vy a) * alpha,
      vz = vz a + (vz v - vz a) * alpha\<rparr>"

definition MathUtils_lerp :: "real \<Rightarrow> real \<Rightarrow> real \<Rightarrow> real" where
  \<comment> \<open>\<^verbatim>\<open>THREE.MathUtils.lerp(x, y, t)\<close>: \<^verbatim>\<open>return (1 - t) * x + t * y\<close>\<close>
  "MathUtils_lerp a b t = (1 - t) * a + t * b"

section \<open>SpaceshipController\<close>

text \<open>
  The part of the \<^verbatim>\<open>THREE.Group\<close> behind \<^verbatim>\<open>spaceshipRef\<close> that the controller
  writes: \<^verbatim>\<open>position.y\<close> and the Euler rotation with its order.
\<close>

record Group =
  position_y :: real
  rotation_x :: real
  rotation_y :: real
  rotation_z :: real
  rotation_order :: string

text \<open>
  The seven refs of the component. \<open>spaceshipRef\<close> is \<open>None\<close> while the ref is
  null, that is, until the \<^verbatim>\<open>Spaceship\<close> child has mounted.
\<close>

record SpaceshipController =
  spaceshipRef :: "Group option"
  translateY :: real
  translateAcceleration :: real
  angleZ :: real
  angleAcceleration :: real
  pitchAngle :: real
  pitchAcceleration :: real

definition SpaceshipController_init :: SpaceshipController where
  \<comment> \<open>\<^verbatim>\<open>useRef<THREE.Group>(null)\<close> and six times \<^verbatim>\<open>useRef(0)\<close>\<close>
  "SpaceshipController_init =
     \<lparr>spaceshipRef = None, translateY = 0, translateAcceleration = 0,
      angleZ = 0, angleAcceleration = 0, pitchAngle = 0, pitchAcceleration = 0\<rparr>"

definition dirCos :: "Vector3 \<Rightarrow> real \<Rightarrow> real" where
  \<comment> \<open>lines 160 to 165: the normalised direction from \<open>(0, translateY, 0)\<close> to the mouse
      point, projected on the up vector\<close>
  "dirCos mousePoint ty =
     (let dir = normalize (sub mousePoint \<lparr>vx = 0, vy = ty, vz = 0\<rparr>)
      in dot dir \<lparr>vx = 0, vy = 1, vz = 0\<rparr>)"

definition boundedAngle :: "Vector3 \<Rightarrow> real \<Rightarrow> real" where
  \<comment> \<open>lines 166 and 169\<close>
  "boundedAngle mousePoint ty =
     (let angle = arccos (dirCos mousePoint ty) - pi / 2
      in max (- pi / 4) (min (pi / 4) angle))"

definition boundedPitch :: "real \<Rightarrow> real" where
  \<comment> \<open>line 170\<close>
  "boundedPitch pitch = max (- pi / 6) (min (pi / 6) pitch)"

text \<open>
  The \<^verbatim>\<open>useFrame\<close> callback, one assignment after the other. Each assignment to
  a ref binds a new name: \<open>translateAcceleration1\<close> is \<^verbatim>\<open>translateAcceleration.current\<close>
  after its first assignment of the frame, \<open>translateAcceleration2\<close> after the second,
  and the refs of the result hold the last values. \<open>turbo\<close> is a number:
  \<^verbatim>\<open>turbo > 0\<close> is the comparison, and \<^verbatim>\<open>!turbo\<close> holds when it is 0.
\<close>

definition SpaceshipController_frame ::
    "Vector3 \<Rightarrow> real \<Rightarrow> SpaceshipController \<Rightarrow> SpaceshipController" where
  "SpaceshipController_frame mousePoint turbo s =
     (case spaceshipRef s of
        None \<Rightarrow> s
      | Some ship \<Rightarrow>
         (let (translateAcceleration1, angleAcceleration1, pitchAcceleration1) =
                (if turbo > 0 then
                   (translateAcceleration s + (0 - translateY s) * 0.01,
                    angleAcceleration s + (0 - angleZ s) * 0.01,
                    pitchAcceleration s + (0 - pitchAngle s) * 0.01)
                 else
                   (let boundedY = max (- 3) (min 1 (vy mousePoint));
                        targetPitch = vz mousePoint * 0.5
                    in (translateAcceleration s + (boundedY - translateY s) * 0.002,
                        angleAcceleration s,
                        pitchAcceleration s + (targetPitch - pitchAngle s) * 0.01)));
              translateAcceleration2 = translateAcceleration1 * 0.95;
              translateY1 = translateY s + translateAcceleration2;
              pitchAcceleration2 = pitchAcceleration1 * 0.85;
              pitchAngle1 = pitchAngle s + pitchAcceleration2;
              bAngle = boundedAngle mousePoint translateY1;
              bPitch = boundedPitch pitchAngle1;
              angleAcceleration2 =
                (if turbo = 0 then angleAcceleration1 + (bAngle - angleZ s) * 0.01
                 else angleAcceleration1);
              angleAcceleration3 = angleAcceleration2 * 0.75;
              angleZ1 = angleZ s + angleAcceleration3
          in \<lparr>spaceshipRef =
                 Some (ship\<lparr>position_y := translateY1,
                            rotation_x := bPitch,
                            rotation_y := - pi / 2,
                            rotation_z := angleZ1,
                            rotation_order := ''YZX''\<rparr>),
              translateY = translateY1,
              translateAcceleration = translateAcceleration2,
              angleZ = angleZ1,
              angleAcceleration = angleAcceleration3,
              pitchAngle = pitchAngle1,
              pitchAcceleration = pitchAcceleration2\<rparr>))"

text \<open>
  The group the ref points to once the child has mounted: a fresh \<^verbatim>\<open>THREE.Group\<close>
  sits at the origin, unrotated, with the Euler order \<^verbatim>\<open>XYZ\<close>.
\<close>

definition Group_new :: Group where
  "Group_new =
     \<lparr>position_y = 0, rotation_x = 0, rotation_y = 0, rotation_z = 0,
      rotation_order = ''XYZ''\<rparr>"

section \<open>MousePlane\<close>

text \<open>
  \<^verbatim>\<open>handlePointerMove\<close> with \<^verbatim>\<open>onMove = setMousePoint\<close>: the function from the
  event's point and the current \<^verbatim>\<open>mousePoint\<close> state of \<^verbatim>\<open>Experience\<close> to the
  next one. During turbo the handler returns before it calls \<^verbatim>\<open>onMove\<close>.
\<close>

definition handlePointerMove :: "real \<Rightarrow> Vector3 \<Rightarrow> Vector3 \<Rightarrow> Vector3" where
  "handlePointerMove turbo point mousePoint =
     (if turbo > 0 then mousePoint
      else \<lparr>vx = - 3, vy = vy point, vz = vz point\<rparr>)"

section \<open>CameraRig\<close>

text \<open>
  The camera as the rig writes it: its position, the point last passed to
  \<^verbatim>\<open>camera.lookAt\<close> (the orientation is recomputed from the position and this point
  at each call, never blended with the old one) and the field of view.
\<close>

record Camera =
  position :: Vector3
  lookAt :: Vector3
  fov :: real

definition basePosition :: Vector3 where
  "basePosition = \<lparr>vx = - 4, vy = 4, vz = 6\<rparr>"

definition baseLookAt :: Vector3 where
  "baseLookAt = \<lparr>vx = 0, vy = 0, vz = 0\<rparr>"

definition turboPosition :: Vector3 where
  "turboPosition = \<lparr>vx = 5, vy = 1, vz = 1\<rparr>"

definition turboLookAt :: Vector3 where
  "turboLookAt = \<lparr>vx = - 5, vy = 0, vz = 0\<rparr>"

text \<open>
  The three targets of a frame. \<^verbatim>\<open>turbo ? a : b\<close> takes \<^verbatim>\<open>a\<close> when the number is
  not 0.
\<close>

definition targetPos :: "real \<Rightarrow> Vector3" where
  "targetPos turbo = (if turbo \<noteq> 0 then turboPosition else basePosition)"

definition targetLook :: "real \<Rightarrow> Vector3" where
  "targetLook turbo = (if turbo \<noteq> 0 then turboLookAt else baseLookAt)"

definition targetFOV :: "real \<Rightarrow> real" where
  "targetFOV turbo = 40 + turbo * 15"

definition CameraRig_frame :: "real \<Rightarrow> Camera \<Rightarrow> Camera" where
  \<comment> \<open>the \<^verbatim>\<open>useFrame\<close> callback, lines 78 to 92\<close>
  "CameraRig_frame turbo camera =
     (let camera1 = camera\<lparr>position := lerp_v (position camera) (targetPos turbo) 0.05\<rparr>;
          camera2 = camera1\<lparr>lookAt := targetLook turbo\<rparr>
      in camera2\<lparr>fov := MathUtils_lerp (fov camera2) (targetFOV turbo) 0.02\<rparr>)"

definition CameraRig_mount :: "Camera \<Rightarrow> Camera" where
  \<comment> \<open>the \<^verbatim>\<open>useEffect\<close> body, lines 95 to 101\<close>
  "CameraRig_mount camera = camera\<lparr>position := basePosition, lookAt := baseLookAt, fov := 40\<rparr>"

section \<open>DynamicEnvMap\<close>

text \<open>
  The resources of the component. A render target is named by the number of the
  \<^verbatim>\<open>fromScene\<close> call that produced it: \<^verbatim>\<open>PMREMGenerator.fromScene\<close> allocates a
  new target at every call. \<open>alive\<close> lists the targets produced and not yet disposed;
  disposing a target twice does nothing the second time. What the frame does to the
  scene (hiding the ship, clearing the background, assigning the texture to the ship's
  materials) creates and releases no map and is left out.
\<close>

record DynamicEnvMap =
  produced :: nat
  alive :: "nat list"
  previousEnvMap :: "nat option"
  pmremDisposed :: bool

definition DynamicEnvMap_mount :: DynamicEnvMap where
  "DynamicEnvMap_mount =
     \<lparr>produced = 0, alive = [], previousEnvMap = None, pmremDisposed = False\<rparr>"

definition fromScene :: "DynamicEnvMap \<Rightarrow> nat \<times> DynamicEnvMap" where
  "fromScene st =
     (produced st, st\<lparr>produced := Suc (produced st), alive := alive st @ [produced st]\<rparr>)"

definition dispose :: "nat \<Rightarrow> DynamicEnvMap \<Rightarrow> DynamicEnvMap" where
  "dispose target st = st\<lparr>alive := removeAll target (alive st)\<rparr>"

definition DynamicEnvMap_frame :: "DynamicEnvMap \<Rightarrow> DynamicEnvMap" where
  \<comment> \<open>the \<^verbatim>\<open>useFrame\<close> callback: line 27, then lines 47 to 50\<close>
  "DynamicEnvMap_frame st =
     (case fromScene st of
        (envMap, st1) \<Rightarrow>
          (let st2 = (case previousEnvMap st1 of
                        Some previous \<Rightarrow> dispose previous st1
                      | None \<Rightarrow> st1)
           in st2\<lparr>previousEnvMap := Some envMap\<rparr>))"

definition DynamicEnvMap_unmount :: "DynamicEnvMap \<Rightarrow> DynamicEnvMap" where
  \<comment> \<open>the cleanup of the \<^verbatim>\<open>useEffect\<close>, lines 55 to 60\<close>
  "DynamicEnvMap_unmount st =
     (let st1 = (case previousEnvMap st of
                   Some previous \<Rightarrow> dispose previous st
                 | None \<Rightarrow> st)
      in st1\<lparr>pmremDisposed := True\<rparr>)"

section \<open>Experience\<close>

text \<open>
  The two pieces of React state of \<^verbatim>\<open>Experience\<close>, \<^verbatim>\<open>turbo\<close> and
  \<^verbatim>\<open>mousePoint\<close> (here \<open>turboState\<close> and \<open>mousePointState\<close>), and the events
  that set them: the two key handlers and the pointer handler of \<^verbatim>\<open>MousePlane\<close>.
\<close>

record Experience =
  turboState :: real
  mousePointState :: Vector3

definition Experience_init :: Experience where
  "Experience_init = \<lparr>turboState = 0, mousePointState = \<lparr>vx = 0, vy = 0, vz = 0\<rparr>\<rparr>"

datatype ExperienceEvent = KeyDown string | KeyUp string | PointerMove Vector3

fun Experience_step :: "ExperienceEvent \<Rightarrow> Experience \<Rightarrow> Experience" where
  "Experience_step (KeyDown code) st = (if code = ''Space'' then st\<lparr>turboState := 1\<rparr> else st)"
| "Experience_step (KeyUp code) st = (if code = ''Space'' then st\<lparr>turboState := 0\<rparr> else st)"
| "Experience_step (PointerMove point) st =
     st\<lparr>mousePointState := handlePointerMove (turboState st) point (mousePointState st)\<rparr>"

fun Experience_run :: "Experience \<Rightarrow> ExperienceEvent list \<Rightarrow> Experience" where
  "Experience_run st [] = st"
| "Experience_run st (e # es) = Experience_run (Experience_step e st) es"

section \<open>The application: input events and frames\<close>












section \<open>The two readings of the update law\<close>

text \<open>
  The law as the specification words it, on three variables:
  \<^verbatim>\<open>accel += (target - value) * k; vel = (vel + accel) * damping; value += vel\<close>.
  This definition follows the specification, not the source.
\<close>

definition spec_spring_law ::
    "real \<Rightarrow> real \<Rightarrow> real \<Rightarrow> real \<times> real \<times> real \<Rightarrow> real \<times> real \<times> real" where
  "spec_spring_law target k damping st =
     (case st of (accel, vel, val) \<Rightarrow>
        (let accel' = accel + (target - val) * k;
             vel' = (vel + accel') * damping;
             val' = val + vel'
         in (accel', vel', val')))"

text \<open>
  The law on two variables, for comparison with the source:
  \<^verbatim>\<open>accel += (target - value) * k; accel *= damping; value += accel\<close>.
\<close>

definition damped_step ::
    "real \<Rightarrow> real \<Rightarrow> real \<Rightarrow> real \<times> real \<Rightarrow> real \<times> real" where
  "damped_step target k damping st =
     (case st of (accel, val) \<Rightarrow>
        (let accel' = (accel + (target - val) * k) * damping
         in (accel', val + accel')))"

section \<open>Runs of the controller\<close>

text \<open>
  Between mount and unmount the component sees two kinds of events: a frame, with the
  props \<^verbatim>\<open>mousePoint\<close> and \<^verbatim>\<open>turbo\<close> of the current render, and React
  assigning the ref (the child's group when it mounts, null when it unmounts).
\<close>

datatype ControllerEvent = Frame Vector3 real | RefSet "Group option"

fun ControllerEvent_step ::
    "ControllerEvent \<Rightarrow> SpaceshipController \<Rightarrow> SpaceshipController" where
  "ControllerEvent_step (Frame mousePoint turbo) s = SpaceshipController_frame mousePoint turbo s"
| "ControllerEvent_step (RefSet r) s = s\<lparr>spaceshipRef := r\<rparr>"

fun run :: "SpaceshipController \<Rightarrow> ControllerEvent list \<Rightarrow> SpaceshipController" where
  "run s [] = s"
| "run s (e # es) = run (ControllerEvent_step e s) es"

text \<open>
  The region of the yaw spring's phase plane that every frame maps into itself: the
  angle within 45 degrees, and the speed at most a tenth of the distance left to
  either bound.
\<close>

definition yaw_inv :: "SpaceshipController \<Rightarrow> bool" where
  "yaw_inv s \<longleftrightarrow>
     - pi / 4 \<le> angleZ s \<and> angleZ s \<le> pi / 4
     \<and> angleAcceleration s \<le> 0.1 * (pi / 4 - angleZ s)
     \<and> - angleAcceleration s \<le> 0.1 * (pi / 4 + angleZ s)"

section \<open>Example inputs\<close>

text \<open>The controller after its child has mounted, and some pointer targets.\<close>

definition mounted :: SpaceshipController where
  "mounted = SpaceshipController_init\<lparr>spaceshipRef := Some Group_new\<rparr>"

definition pointer_up :: Vector3 where
  "pointer_up = \<lparr>vx = - 3, vy = 1, vz = 0\<rparr>"

definition pointer_high :: Vector3 where
  "pointer_high = \<lparr>vx = - 3, vy = 5, vz = 2\<rparr>"

text \<open>The camera as the rig's initialisation leaves it.\<close>

definition Camera_base :: Camera where
  "Camera_base = \<lparr>position = basePosition, lookAt = baseLookAt, fov = 40\<rparr>"

section \<open>Properties of SpaceshipController\<close>

lemma mounted_ref: "spaceshipRef mounted = Some Group_new"
  by (simp add: mounted_def)

subsection \<open>The frame is skipped until the mesh is there\<close>

text \<open>
  C8. In a frame where the spaceship ref is still null the callback returns at once:
  the whole controller state, with the position, both angles and their three
  accelerations, is what it was, and the frame yields a state as every frame does
  (no error value exists in the model because the source raises none).
\<close>

theorem frame_skipped_when_not_loaded:
  "spaceshipRef s = None \<Longrightarrow> SpaceshipController_frame mousePoint turbo s = s"
  by (simp add: SpaceshipController_frame_def)

theorem frame_skipped_when_not_loaded_witness:
  "SpaceshipController_frame \<lparr>vx = - 3, vy = 5, vz = 2\<rparr> 0 SpaceshipController_init
     = SpaceshipController_init"
  using frame_skipped_when_not_loaded
          [of SpaceshipController_init "\<lparr>vx = - 3, vy = 5, vz = 2\<rparr>" 0]
  by (simp add: SpaceshipController_init_def)

subsection \<open>The update law\<close>

text \<open>
  C1, as the code has it. In a frame of either mode each steered quantity advances by
  \<open>damped_step\<close>: the target's pull is added to the ref called acceleration, that
  ref is damped, and the damped ref is added to the value. The ref carries over to the
  next frame, so it is the only velocity there is. The constants are those of the
  claim: vertical 0.002 in manual mode and 0.01 in turbo mode with damping 0.95; pitch
  0.01 with damping 0.85; yaw 0.01 with damping 0.75. The targets are the bounded
  pointer height, half the pointer depth and the bounded angle in manual mode, and 0 in
  turbo mode.
\<close>

theorem frame_follows_damped_step:
  assumes "spaceshipRef s = Some ship"
  shows "(translateAcceleration (SpaceshipController_frame mousePoint 0 s),
          translateY (SpaceshipController_frame mousePoint 0 s))
         = damped_step (max (- 3) (min 1 (vy mousePoint))) 0.002 0.95
             (translateAcceleration s, translateY s)
       \<and> (pitchAcceleration (SpaceshipController_frame mousePoint 0 s),
          pitchAngle (SpaceshipController_frame mousePoint 0 s))
         = damped_step (vz mousePoint * 0.5) 0.01 0.85 (pitchAcceleration s, pitchAngle s)
       \<and> (angleAcceleration (SpaceshipController_frame mousePoint 0 s),
          angleZ (SpaceshipController_frame mousePoint 0 s))
         = damped_step
             (boundedAngle mousePoint (translateY (SpaceshipController_frame mousePoint 0 s)))
             0.01 0.75 (angleAcceleration s, angleZ s)
       \<and> (translateAcceleration (SpaceshipController_frame mousePoint 1 s),
          translateY (SpaceshipController_frame mousePoint 1 s))
         = damped_step 0 0.01 0.95 (translateAcceleration s, translateY s)
       \<and> (pitchAcceleration (SpaceshipController_frame mousePoint 1 s),
          pitchAngle (SpaceshipController_frame mousePoint 1 s))
         = damped_step 0 0.01 0.85 (pitchAcceleration s, pitchAngle s)
       \<and> (angleAcceleration (SpaceshipController_frame mousePoint 1 s),
          angleZ (SpaceshipController_frame mousePoint 1 s))
         = damped_step 0 0.01 0.75 (angleAcceleration s, angleZ s)"
  using assms
  by (simp add: SpaceshipController_frame_def damped_step_def Let_def)

theorem frame_follows_damped_step_witness:
  "(translateAcceleration (SpaceshipController_frame pointer_up 0 mounted),
    translateY (SpaceshipController_frame pointer_up 0 mounted)) = (19 / 10000, 19 / 10000)"
  using frame_follows_damped_step [OF mounted_ref, of pointer_up]
  by (simp add: damped_step_def Let_def mounted_def SpaceshipController_init_def pointer_up_def)

text \<open>
  C1, as the specification words it, fails: its law keeps an undamped accumulated
  acceleration beside a velocity. From rest, with the target 1, that law has
  accumulated the acceleration 0.002 after one frame where the code holds 0.0019, and
  after two frames it has moved the value to 0.00750139 where the code is at
  0.00560139.
\<close>

theorem spec_spring_law_counterexample:
  "translateY (SpaceshipController_frame pointer_up 0
                 (SpaceshipController_frame pointer_up 0 mounted))
     \<noteq> snd (snd (spec_spring_law 1 0.002 0.95 (spec_spring_law 1 0.002 0.95 (0, 0, 0))))
   \<and> translateAcceleration (SpaceshipController_frame pointer_up 0 mounted)
     \<noteq> fst (spec_spring_law 1 0.002 0.95 (0, 0, 0))"
  by (simp add: SpaceshipController_frame_def spec_spring_law_def Let_def mounted_def
      SpaceshipController_init_def pointer_up_def)

subsection \<open>Manual mode: the clamp is on the target\<close>

text \<open>
  C4. In a manual frame (turbo = 0) the vertical spring is pulled towards
  \<open>max (-3) (min 1 y)\<close> of the pointer's \<open>y\<close>, whatever the pointer is. The clamp
  is on the target only: the integrated value is the old value plus the new speed, and
  it is written to the ship's position as it is.
\<close>

theorem manual_vertical_target_clamped:
  assumes "spaceshipRef s = Some ship"
  shows "translateAcceleration (SpaceshipController_frame mousePoint 0 s) =
           (translateAcceleration s
              + (max (- 3) (min 1 (vy mousePoint)) - translateY s) * 0.002) * 0.95
       \<and> translateY (SpaceshipController_frame mousePoint 0 s) =
           translateY s + translateAcceleration (SpaceshipController_frame mousePoint 0 s)
       \<and> map_option position_y (spaceshipRef (SpaceshipController_frame mousePoint 0 s)) =
           Some (translateY (SpaceshipController_frame mousePoint 0 s))"
  using assms by (simp add: SpaceshipController_frame_def Let_def)

theorem manual_vertical_target_clamped_witness:
  "translateAcceleration (SpaceshipController_frame pointer_high 0 mounted) = 19 / 10000
   \<and> translateY (SpaceshipController_frame pointer_high 0 mounted) = 19 / 10000
   \<and> map_option position_y (spaceshipRef (SpaceshipController_frame pointer_high 0 mounted))
       = Some (19 / 10000)"
  using manual_vertical_target_clamped [OF mounted_ref, of pointer_high]
  by (simp add: mounted_def SpaceshipController_init_def pointer_high_def
      SpaceshipController_frame_def Let_def)

subsection \<open>Turbo mode: every target is 0\<close>

text \<open>
  C7. In a frame with turbo = 1 the vertical, yaw and pitch springs are each pulled
  towards 0 with the constant 0.01, the frame's result does not depend on the pointer
  target, and the pointer handler leaves the stored target alone. The frame is a
  function of the current flag and the six refs, none of which records a mode: nothing
  of an earlier mode survives but the values of the refs.
\<close>

theorem turbo_targets_zero:
  assumes "spaceshipRef s = Some ship"
  shows "SpaceshipController_frame mousePoint 1 s = SpaceshipController_frame mousePoint' 1 s
       \<and> translateAcceleration (SpaceshipController_frame mousePoint 1 s) =
           (translateAcceleration s + (0 - translateY s) * 0.01) * 0.95
       \<and> angleAcceleration (SpaceshipController_frame mousePoint 1 s) =
           (angleAcceleration s + (0 - angleZ s) * 0.01) * 0.75
       \<and> pitchAcceleration (SpaceshipController_frame mousePoint 1 s) =
           (pitchAcceleration s + (0 - pitchAngle s) * 0.01) * 0.85
       \<and> handlePointerMove 1 point current = current"
  using assms by (simp add: SpaceshipController_frame_def Let_def handlePointerMove_def)

theorem turbo_targets_zero_witness:
  "SpaceshipController_frame pointer_up 1 mounted = SpaceshipController_frame pointer_high 1 mounted
   \<and> translateAcceleration (SpaceshipController_frame pointer_up 1 mounted) = 0
   \<and> angleAcceleration (SpaceshipController_frame pointer_up 1 mounted) = 0
   \<and> pitchAcceleration (SpaceshipController_frame pointer_up 1 mounted) = 0
   \<and> handlePointerMove 1 pointer_high pointer_up = pointer_up"
  using turbo_targets_zero [OF mounted_ref, of pointer_up pointer_high pointer_high pointer_up]
  by (simp add: mounted_def SpaceshipController_init_def SpaceshipController_frame_def Let_def)

subsection \<open>The yaw target\<close>















subsection \<open>The rotation written to the ship\<close>

lemma boundedAngle_range: "- pi / 4 \<le> boundedAngle mousePoint ty \<and> boundedAngle mousePoint ty \<le> pi / 4"
  by (simp add: boundedAngle_def Let_def max_def min_def)

lemma boundedPitch_range: "- pi / 6 \<le> boundedPitch p \<and> boundedPitch p \<le> pi / 6"
  by (simp add: boundedPitch_def max_def min_def)

lemma spring_step_inv:
  fixes a z t T :: real
  assumes "- T \<le> z" "z \<le> T" "a \<le> 0.1 * (T - z)" "- a \<le> 0.1 * (T + z)"
    and "- T \<le> t" "t \<le> T"
  shows "- T \<le> z + (a + (t - z) * 0.01) * 0.75 \<and> z + (a + (t - z) * 0.01) * 0.75 \<le> T
       \<and> (a + (t - z) * 0.01) * 0.75 \<le> 0.1 * (T - (z + (a + (t - z) * 0.01) * 0.75))
       \<and> - ((a + (t - z) * 0.01) * 0.75) \<le> 0.1 * (T + (z + (a + (t - z) * 0.01) * 0.75))"
proof -
  have e: "(a + (t - z) * 0.01) * 0.75 = 3 / 4 * a + 3 / 400 * t - 3 / 400 * z"
    by (simp add: field_simps)
  from assms have h: "10 * a \<le> T - z" "- (10 * a) \<le> T + z" by simp_all
  show ?thesis unfolding e using assms(1,2,5,6) h by - (intro conjI; argo)
qed

lemma damp_step_inv:
  fixes a z T :: real
  assumes "- T \<le> z" "z \<le> T" "a \<le> 0.1 * (T - z)" "- a \<le> 0.1 * (T + z)"
  shows "- T \<le> z + a * 0.75 \<and> z + a * 0.75 \<le> T
       \<and> a * 0.75 \<le> 0.1 * (T - (z + a * 0.75))
       \<and> - (a * 0.75) \<le> 0.1 * (T + (z + a * 0.75))"
proof -
  have e: "a * 0.75 = 3 / 4 * a" by simp
  from assms have h: "10 * a \<le> T - z" "- (10 * a) \<le> T + z" by simp_all
  show ?thesis unfolding e using assms(1,2) h by - (intro conjI; argo)
qed

lemma yaw_inv_frame:
  assumes "yaw_inv s"
  shows "yaw_inv (SpaceshipController_frame mousePoint turbo s)"
proof (cases "spaceshipRef s")
  case None
  with assms show ?thesis by (simp add: SpaceshipController_frame_def)
next
  case (Some ship)
  have T: "- (pi / 4) \<le> (0::real)" "(0::real) \<le> pi / 4" by simp_all
  from assms have i: "- (pi / 4) \<le> angleZ s" "angleZ s \<le> pi / 4"
      "angleAcceleration s \<le> 0.1 * (pi / 4 - angleZ s)"
      "- angleAcceleration s \<le> 0.1 * (pi / 4 + angleZ s)"
    by (simp_all add: yaw_inv_def)
  consider "turbo > 0" | "turbo = 0" | "turbo < 0" by linarith
  then show ?thesis
  proof cases
    case 1
    from spring_step_inv [OF i T] 1 Some show ?thesis
      by (simp add: yaw_inv_def SpaceshipController_frame_def Let_def)
  next
    case 2
    let ?t = "boundedAngle mousePoint (translateY (SpaceshipController_frame mousePoint 0 s))"
    have t: "- (pi / 4) \<le> ?t" "?t \<le> pi / 4" using boundedAngle_range [of mousePoint] by simp_all
    from spring_step_inv [OF i t] 2 Some show ?thesis
      by (simp add: yaw_inv_def SpaceshipController_frame_def Let_def)
  next
    case 3
    from damp_step_inv [OF i] 3 Some show ?thesis
      by (simp add: yaw_inv_def SpaceshipController_frame_def Let_def)
  qed
qed

lemma yaw_inv_step: "yaw_inv s \<Longrightarrow> yaw_inv (ControllerEvent_step e s)"
  by (cases e) (simp_all add: yaw_inv_frame, simp add: yaw_inv_def)

lemma yaw_inv_run: "yaw_inv s \<Longrightarrow> yaw_inv (run s es)"
  by (induction es arbitrary: s) (simp_all add: yaw_inv_step)

lemma yaw_inv_init: "yaw_inv SpaceshipController_init"
  by (simp add: yaw_inv_def SpaceshipController_init_def)

text \<open>
  C2. After any history of frames and ref assignments since the component was created,
  the rotation a frame writes to the ship has its yaw (about Z) within 45 degrees and
  its pitch (about X) within 30 degrees. The pitch is clamped as it is written. The yaw
  is the spring's own value: its target is clamped, and the spring never leaves the
  target's range.
\<close>

theorem applied_rotation_bounded:
  assumes "spaceshipRef (run SpaceshipController_init es) = Some ship"
  shows "case spaceshipRef (SpaceshipController_frame mousePoint turbo
                              (run SpaceshipController_init es)) of
           None \<Rightarrow> False
         | Some ship' \<Rightarrow>
             - pi / 4 \<le> rotation_z ship' \<and> rotation_z ship' \<le> pi / 4
             \<and> - pi / 6 \<le> rotation_x ship' \<and> rotation_x ship' \<le> pi / 6"
proof -
  let ?s = "run SpaceshipController_init es"
  let ?s' = "SpaceshipController_frame mousePoint turbo ?s"
  have "yaw_inv ?s'" by (intro yaw_inv_frame yaw_inv_run yaw_inv_init)
  then have z: "- pi / 4 \<le> angleZ ?s'" "angleZ ?s' \<le> pi / 4" by (simp_all add: yaw_inv_def)
  have r: "spaceshipRef ?s' =
           Some (ship\<lparr>position_y := translateY ?s',
                      rotation_x := boundedPitch (pitchAngle ?s'),
                      rotation_y := - pi / 2,
                      rotation_z := angleZ ?s',
                      rotation_order := ''YZX''\<rparr>)"
    using assms by (simp add: SpaceshipController_frame_def Let_def)
  show ?thesis using z boundedPitch_range [of "pitchAngle ?s'"] by (simp add: r)
qed

theorem applied_rotation_bounded_witness:
  "spaceshipRef (run SpaceshipController_init [RefSet (Some Group_new), Frame pointer_high 0])
     \<noteq> None
   \<and> (case spaceshipRef (SpaceshipController_frame pointer_high 1
         (run SpaceshipController_init [RefSet (Some Group_new), Frame pointer_high 0])) of
         None \<Rightarrow> False
       | Some ship' \<Rightarrow>
           - pi / 4 \<le> rotation_z ship' \<and> rotation_z ship' \<le> pi / 4
           \<and> - pi / 6 \<le> rotation_x ship' \<and> rotation_x ship' \<le> pi / 6)"
proof -
  let ?s = "run SpaceshipController_init [RefSet (Some Group_new), Frame pointer_high 0]"
  have "spaceshipRef ?s \<noteq> None"
    by (simp add: SpaceshipController_frame_def SpaceshipController_init_def Let_def)
  then obtain ship where r: "spaceshipRef ?s = Some ship" by blast
  from applied_rotation_bounded [OF r, of pointer_high 1] r show ?thesis by simp
qed

section \<open>Properties of CameraRig\<close>

text \<open>
  C5. A frame moves each coordinate of the camera position by 0.05 of what separates it
  from the target, and the field of view by 0.02 of what separates it from its target;
  the target is BASE (position (-4, 4, 6), field of view 40) when turbo is 0 and TURBO
  (position (5, 1, 1), field of view 55) when turbo is 1. The look-at point is set to
  the target's, (0, 0, 0) or (-5, 0, 0), at once. Initialisation sets position, look-at
  point and field of view to BASE exactly.
\<close>

theorem CameraRig_frame_eases_and_aims:
  "CameraRig_frame 0 camera =
     \<lparr>position = \<lparr>vx = vx (position camera) + (- 4 - vx (position camera)) * 0.05,
                   vy = vy (position camera) + (4 - vy (position camera)) * 0.05,
                   vz = vz (position camera) + (6 - vz (position camera)) * 0.05\<rparr>,
      lookAt = \<lparr>vx = 0, vy = 0, vz = 0\<rparr>,
      fov = fov camera + (40 - fov camera) * 0.02\<rparr>
   \<and> CameraRig_frame 1 camera =
     \<lparr>position = \<lparr>vx = vx (position camera) + (5 - vx (position camera)) * 0.05,
                   vy = vy (position camera) + (1 - vy (position camera)) * 0.05,
                   vz = vz (position camera) + (1 - vz (position camera)) * 0.05\<rparr>,
      lookAt = \<lparr>vx = - 5, vy = 0, vz = 0\<rparr>,
      fov = fov camera + (55 - fov camera) * 0.02\<rparr>
   \<and> CameraRig_mount camera =
     \<lparr>position = \<lparr>vx = - 4, vy = 4, vz = 6\<rparr>, lookAt = \<lparr>vx = 0, vy = 0, vz = 0\<rparr>, fov = 40\<rparr>"
  by (simp add: CameraRig_frame_def CameraRig_mount_def Let_def lerp_v_def MathUtils_lerp_def
      targetPos_def targetLook_def targetFOV_def basePosition_def baseLookAt_def
      turboPosition_def turboLookAt_def algebra_simps)

subsection \<open>Convergence\<close>

lemma lerp_v_sub:
  "sub (lerp_v a v alpha) v = multiplyScalar (sub a v) (1 - alpha)"
  by (simp add: sub_def lerp_v_def multiplyScalar_def algebra_simps)

lemma MathUtils_lerp_sub: "MathUtils_lerp a b t - b = (1 - t) * (a - b)"
  by (simp add: MathUtils_lerp_def algebra_simps)

lemma position_frame: "position (CameraRig_frame turbo camera) = lerp_v (position camera) (targetPos turbo) 0.05"
  by (simp add: CameraRig_frame_def Let_def)

lemma fov_frame: "fov (CameraRig_frame turbo camera) = MathUtils_lerp (fov camera) (targetFOV turbo) 0.02"
  by (simp add: CameraRig_frame_def Let_def)

lemma position_iterate:
  "sub (position ((CameraRig_frame turbo ^^ n) camera)) (targetPos turbo)
     = multiplyScalar (sub (position camera) (targetPos turbo)) (0.95 ^ n)"
proof (induction n)
  case 0
  show ?case by (simp add: multiplyScalar_def)
next
  case (Suc n)
  have "sub (position ((CameraRig_frame turbo ^^ Suc n) camera)) (targetPos turbo)
        = multiplyScalar (sub (position ((CameraRig_frame turbo ^^ n) camera)) (targetPos turbo)) (1 - 0.05)"
    by (simp add: position_frame lerp_v_sub)
  also have "\<dots> = multiplyScalar (multiplyScalar (sub (position camera) (targetPos turbo)) (0.95 ^ n)) (1 - 0.05)"
    by (simp only: Suc.IH)
  also have "\<dots> = multiplyScalar (sub (position camera) (targetPos turbo)) (0.95 ^ Suc n)"
    by (simp add: multiplyScalar_def algebra_simps)
  finally show ?case .
qed

lemma fov_iterate:
  "fov ((CameraRig_frame turbo ^^ n) camera) - targetFOV turbo
     = 0.98 ^ n * (fov camera - targetFOV turbo)"
proof (induction n)
  case 0
  show ?case by simp
next
  case (Suc n)
  have "fov ((CameraRig_frame turbo ^^ Suc n) camera) - targetFOV turbo
        = (1 - 0.02) * (fov ((CameraRig_frame turbo ^^ n) camera) - targetFOV turbo)"
    by (simp add: fov_frame MathUtils_lerp_sub)
  also have "\<dots> = (1 - 0.02) * (0.98 ^ n * (fov camera - targetFOV turbo))"
    by (simp only: Suc.IH)
  also have "\<dots> = 0.98 ^ Suc n * (fov camera - targetFOV turbo)"
    by simp
  finally show ?case .
qed

lemma length_v_multiplyScalar: "length_v (multiplyScalar a k) = \<bar>k\<bar> * length_v a"
proof -
  have "vx a * k * (vx a * k) + vy a * k * (vy a * k) + vz a * k * (vz a * k)
        = k\<^sup>2 * (vx a * vx a + vy a * vy a + vz a * vz a)"
    by (simp add: algebra_simps power2_eq_square)
  then show ?thesis
    by (simp add: length_v_def multiplyScalar_def real_sqrt_mult)
qed

lemma geometric_below:
  fixes q c e :: real
  assumes "0 \<le> q" "q < 1" "0 \<le> c" "0 < e"
  shows "\<exists>N. \<forall>n\<ge>N. q ^ n * c < e"
proof (cases "c = 0")
  case True
  with assms show ?thesis by simp
next
  case False
  with assms have c: "0 < c" by simp
  with assms have "0 < e / c" by simp
  from real_arch_pow_inv [OF this \<open>q < 1\<close>] obtain N where N: "q ^ N < e / c" by blast
  have "q ^ n * c < e" if "N \<le> n" for n
  proof -
    from that assms have "q ^ n \<le> q ^ N" by (intro power_decreasing) simp_all
    with N have "q ^ n < e / c" by simp
    with c show ?thesis by (simp add: pos_less_divide_eq)
  qed
  then show ?thesis by blast
qed

text \<open>
  C6. With the turbo flag held constant, from any starting camera, and with \<open>cam n\<close>
  the camera after \<open>n\<close> frames: for every positive bound there is a frame from which
  on the distance of the position to its target and of the field of view to its target
  stay below the bound; from one frame to the next neither distance grows; and every
  coordinate, like the field of view, stays on the side of its target where it started,
  so it never passes the target. The factors are the 0.05 and 0.02 of the code, both
  strictly between 0 and 1.
\<close>

theorem CameraRig_converges_monotonically:
  fixes turbo :: real and camera :: Camera
  defines "cam \<equiv> \<lambda>n. (CameraRig_frame turbo ^^ n) camera"
  shows "(\<forall>e>0. \<exists>N. \<forall>n\<ge>N.
            length_v (sub (position (cam n)) (targetPos turbo)) < e
            \<and> \<bar>fov (cam n) - targetFOV turbo\<bar> < e)
       \<and> (\<forall>n. length_v (sub (position (cam (Suc n))) (targetPos turbo))
                 \<le> length_v (sub (position (cam n)) (targetPos turbo))
              \<and> \<bar>fov (cam (Suc n)) - targetFOV turbo\<bar> \<le> \<bar>fov (cam n) - targetFOV turbo\<bar>)
       \<and> (\<forall>n. 0 \<le> (vx (targetPos turbo) - vx (position (cam n)))
                       * (vx (targetPos turbo) - vx (position camera))
              \<and> 0 \<le> (vy (targetPos turbo) - vy (position (cam n)))
                       * (vy (targetPos turbo) - vy (position camera))
              \<and> 0 \<le> (vz (targetPos turbo) - vz (position (cam n)))
                       * (vz (targetPos turbo) - vz (position camera))
              \<and> 0 \<le> (targetFOV turbo - fov (cam n)) * (targetFOV turbo - fov camera))"
proof -
  let ?d = "sub (position camera) (targetPos turbo)"
  let ?f = "fov camera - targetFOV turbo"
  have P: "sub (position (cam n)) (targetPos turbo) = multiplyScalar ?d (0.95 ^ n)" for n
    unfolding cam_def by (rule position_iterate)
  have F: "fov (cam n) - targetFOV turbo = 0.98 ^ n * ?f" for n
    unfolding cam_def by (rule fov_iterate)
  have L: "length_v (sub (position (cam n)) (targetPos turbo)) = 0.95 ^ n * length_v ?d" for n
    by (simp add: P length_v_multiplyScalar)
  have A: "\<bar>fov (cam n) - targetFOV turbo\<bar> = 0.98 ^ n * \<bar>?f\<bar>" for n
    by (simp add: F abs_mult)
  have len: "0 \<le> length_v ?d" by (simp add: length_v_def)
  have conv: "\<exists>N. \<forall>n\<ge>N. length_v (sub (position (cam n)) (targetPos turbo)) < e
                        \<and> \<bar>fov (cam n) - targetFOV turbo\<bar> < e" if "0 < e" for e :: real
  proof -
    from geometric_below [of "0.95" "length_v ?d" e] len that
    obtain N1 where N1: "\<forall>n\<ge>N1. 0.95 ^ n * length_v ?d < e" by auto
    from geometric_below [of "0.98" "\<bar>?f\<bar>" e] that
    obtain N2 where N2: "\<forall>n\<ge>N2. 0.98 ^ n * \<bar>?f\<bar> < e" by auto
    have "\<forall>n\<ge>max N1 N2. length_v (sub (position (cam n)) (targetPos turbo)) < e
                        \<and> \<bar>fov (cam n) - targetFOV turbo\<bar> < e"
      using N1 N2 by (simp add: L A)
    then show ?thesis by blast
  qed
  have mono: "length_v (sub (position (cam (Suc n))) (targetPos turbo))
                 \<le> length_v (sub (position (cam n)) (targetPos turbo))
              \<and> \<bar>fov (cam (Suc n)) - targetFOV turbo\<bar> \<le> \<bar>fov (cam n) - targetFOV turbo\<bar>" for n
  proof -
    have "0.95 * (0.95 ^ n * length_v ?d) \<le> 1 * (0.95 ^ n * length_v ?d)"
      using len by (intro mult_right_mono) simp_all
    moreover have "0.98 * (0.98 ^ n * \<bar>?f\<bar>) \<le> 1 * (0.98 ^ n * \<bar>?f\<bar>)"
      by (intro mult_right_mono) simp_all
    ultimately show ?thesis by (simp add: L A)
  qed
  have side: "0 \<le> (vx (targetPos turbo) - vx (position (cam n)))
                       * (vx (targetPos turbo) - vx (position camera))
              \<and> 0 \<le> (vy (targetPos turbo) - vy (position (cam n)))
                       * (vy (targetPos turbo) - vy (position camera))
              \<and> 0 \<le> (vz (targetPos turbo) - vz (position (cam n)))
                       * (vz (targetPos turbo) - vz (position camera))
              \<and> 0 \<le> (targetFOV turbo - fov (cam n)) * (targetFOV turbo - fov camera)" for n
  proof -
    from P [of n] have
      x: "vx (targetPos turbo) - vx (position (cam n))
            = 0.95 ^ n * (vx (targetPos turbo) - vx (position camera))" and
      y: "vy (targetPos turbo) - vy (position (cam n))
            = 0.95 ^ n * (vy (targetPos turbo) - vy (position camera))" and
      z: "vz (targetPos turbo) - vz (position (cam n))
            = 0.95 ^ n * (vz (targetPos turbo) - vz (position camera))"
      by (simp_all add: sub_def multiplyScalar_def algebra_simps)
    from F [of n] have
      f: "targetFOV turbo - fov (cam n) = 0.98 ^ n * (targetFOV turbo - fov camera)"
      by (simp add: algebra_simps)
    have sq: "0 \<le> q ^ n * u * u" if "0 \<le> q" for q u :: real
      using that by (simp add: mult.assoc)
    show ?thesis unfolding x y z f by (simp add: sq)
  qed
  from conv mono side show ?thesis by blast
qed

theorem CameraRig_converges_monotonically_witness:
  "\<exists>N. length_v (sub (position ((CameraRig_frame 1 ^^ N) Camera_base)) (targetPos 1)) < 1 / 100
       \<and> \<bar>fov ((CameraRig_frame 1 ^^ N) Camera_base) - targetFOV 1\<bar> < 1 / 100"
proof -
  have pos: "(0::real) < 1 / 100" by simp
  note h = CameraRig_converges_monotonically
             [of 1 Camera_base, THEN conjunct1, rule_format, OF pos]
  then obtain N where "\<forall>n\<ge>N.
      length_v (sub (position ((CameraRig_frame 1 ^^ n) Camera_base)) (targetPos 1)) < 1 / 100
      \<and> \<bar>fov ((CameraRig_frame 1 ^^ n) Camera_base) - targetFOV 1\<bar> < 1 / 100"
    by blast
  then have
    "length_v (sub (position ((CameraRig_frame 1 ^^ N) Camera_base)) (targetPos 1)) < 1 / 100
     \<and> \<bar>fov ((CameraRig_frame 1 ^^ N) Camera_base) - targetFOV 1\<bar> < 1 / 100"
    by blast
  then show ?thesis by (rule exI)
qed

section \<open>Properties of DynamicEnvMap\<close>

lemma frame_first:
  "DynamicEnvMap_frame \<lparr>produced = 0, alive = [], previousEnvMap = None, pmremDisposed = False\<rparr>
     = \<lparr>produced = Suc 0, alive = [0], previousEnvMap = Some 0, pmremDisposed = False\<rparr>"
  by (simp add: DynamicEnvMap_frame_def fromScene_def)

lemma frame_next:
  "DynamicEnvMap_frame
     \<lparr>produced = Suc k, alive = [k], previousEnvMap = Some k, pmremDisposed = False\<rparr>
     = \<lparr>produced = Suc (Suc k), alive = [Suc k], previousEnvMap = Some (Suc k),
        pmremDisposed = False\<rparr>"
  by (simp add: DynamicEnvMap_frame_def fromScene_def dispose_def)

lemma frames_state:
  "(DynamicEnvMap_frame ^^ n) DynamicEnvMap_mount =
     \<lparr>produced = n,
      alive = (case n of 0 \<Rightarrow> [] | Suc k \<Rightarrow> [k]),
      previousEnvMap = (case n of 0 \<Rightarrow> None | Suc k \<Rightarrow> Some k),
      pmremDisposed = False\<rparr>"
proof (induction n)
  case 0
  show ?case by (simp add: DynamicEnvMap_mount_def)
next
  case (Suc n)
  have "(DynamicEnvMap_frame ^^ Suc n) DynamicEnvMap_mount
        = DynamicEnvMap_frame ((DynamicEnvMap_frame ^^ n) DynamicEnvMap_mount)"
    by simp
  also have "\<dots> = \<lparr>produced = Suc n, alive = [n], previousEnvMap = Some n,
                    pmremDisposed = False\<rparr>"
    unfolding Suc.IH by (cases n) (simp_all add: frame_first frame_next)
  finally show ?case by simp
qed

text \<open>
  C9. After any number of frames since mount at most one environment map is alive.
  Inside a frame, right after the new map is produced, there are at most two, and the
  frame ends with the new map alone: the map of the frame before has been disposed.
  Unmount after any number of frames leaves no map alive and the generator disposed.
\<close>

theorem at_most_one_envMap_alive:
  "length (alive ((DynamicEnvMap_frame ^^ n) DynamicEnvMap_mount)) \<le> 1
   \<and> length (alive (snd (fromScene ((DynamicEnvMap_frame ^^ n) DynamicEnvMap_mount)))) \<le> 2
   \<and> alive ((DynamicEnvMap_frame ^^ Suc n) DynamicEnvMap_mount) = [n]
   \<and> alive (DynamicEnvMap_unmount ((DynamicEnvMap_frame ^^ n) DynamicEnvMap_mount)) = []
   \<and> pmremDisposed (DynamicEnvMap_unmount ((DynamicEnvMap_frame ^^ n) DynamicEnvMap_mount))"
proof -
  have next_frame: "alive ((DynamicEnvMap_frame ^^ Suc n) DynamicEnvMap_mount) = [n]"
    unfolding frames_state by simp
  have now: "length (alive ((DynamicEnvMap_frame ^^ n) DynamicEnvMap_mount)) \<le> 1"
    unfolding frames_state by (cases n) simp_all
  have mid: "length (alive (snd (fromScene ((DynamicEnvMap_frame ^^ n) DynamicEnvMap_mount)))) \<le> 2"
    unfolding frames_state by (cases n) (simp_all add: fromScene_def)
  have unmounted:
    "alive (DynamicEnvMap_unmount ((DynamicEnvMap_frame ^^ n) DynamicEnvMap_mount)) = []"
    "pmremDisposed (DynamicEnvMap_unmount ((DynamicEnvMap_frame ^^ n) DynamicEnvMap_mount))"
    unfolding frames_state by (cases n; simp add: DynamicEnvMap_unmount_def dispose_def)+
  from now mid next_frame unmounted show ?thesis by blast
qed

section \<open>Properties of MousePlane\<close>

lemma step_keeps_x:
  "vx (mousePointState st) = - 3 \<Longrightarrow> vx (mousePointState (Experience_step e st)) = - 3"
  by (cases e) (simp_all add: handlePointerMove_def)

lemma run_keeps_x:
  "vx (mousePointState st) = - 3 \<Longrightarrow> vx (mousePointState (Experience_run st es)) = - 3"
  by (induction es arbitrary: st) (simp_all add: step_keeps_x)

text \<open>
  C10. A pointer move handled in manual mode (turbo = 0) stores the target
  \<open>(-3, y, z)\<close> with the \<open>y\<close> and \<open>z\<close> of the pointer: the pointer's \<open>x\<close> is
  dropped. Whatever key and pointer events follow, the stored target keeps \<open>x = -3\<close>,
  and so does the direction the controller computes from it by subtracting
  \<open>(0, translateY, 0)\<close>.
\<close>

theorem pointer_x_replaced_by_constant:
  assumes "turboState st = 0"
  shows "mousePointState (Experience_step (PointerMove point) st)
           = \<lparr>vx = - 3, vy = vy point, vz = vz point\<rparr>
       \<and> vx (mousePointState (Experience_run (Experience_step (PointerMove point) st) es)) = - 3
       \<and> vx (sub (mousePointState (Experience_run (Experience_step (PointerMove point) st) es))
                 \<lparr>vx = 0, vy = ty, vz = 0\<rparr>) = - 3"
proof -
  have a: "mousePointState (Experience_step (PointerMove point) st)
           = \<lparr>vx = - 3, vy = vy point, vz = vz point\<rparr>"
    using assms by (simp add: handlePointerMove_def)
  then have "vx (mousePointState (Experience_step (PointerMove point) st)) = - 3" by simp
  then have "vx (mousePointState (Experience_run (Experience_step (PointerMove point) st) es)) = - 3"
    by (rule run_keeps_x)
  with a show ?thesis by (simp add: sub_def)
qed

theorem pointer_x_replaced_by_constant_witness:
  "mousePointState (Experience_step (PointerMove \<lparr>vx = 7, vy = 5, vz = 2\<rparr>) Experience_init)
     = \<lparr>vx = - 3, vy = 5, vz = 2\<rparr>
   \<and> vx (mousePointState (Experience_run
            (Experience_step (PointerMove \<lparr>vx = 7, vy = 5, vz = 2\<rparr>) Experience_init)
            [KeyDown ''Space'', PointerMove \<lparr>vx = 1, vy = 1, vz = 1\<rparr>, KeyUp ''Space''])) = - 3"
proof -
  have t: "turboState Experience_init = 0" by (simp add: Experience_init_def)
  from pointer_x_replaced_by_constant
         [OF t, of "\<lparr>vx = 7, vy = 5, vz = 2\<rparr>"
            "[KeyDown ''Space'', PointerMove \<lparr>vx = 1, vy = 1, vz = 1\<rparr>, KeyUp ''Space'']"]
  show ?thesis by (simp add: handlePointerMove_def Experience_init_def)
qed

end
